theory Spec2Isabelle
  imports Complex_Main
begin

section \<open>The host language: numbers\<close>

text \<open>
  The class \<open>SemVer\<close> of \<open>dist/semver.browser.js\<close> is a JavaScript class. Its
  methods use the host operations \<open>String\<close>, \<open>Number\<close>, \<open>parseInt\<close>,
  \<open>isFinite\<close>, \<open>isNaN\<close>, \<open>==\<close>, the arithmetic operators, template literals
  and \<open>RegExp.prototype.exec\<close>. This part models them as ECMAScript defines them,
  on primitive values.

  A JavaScript number is an IEEE 754 binary64 value: not-a-number, the two
  infinities, the two zeros, or a finite non-zero rational \<open>m * 2^e\<close> with
  \<open>m < 2^53\<close>. \<open>Fin 0\<close> is the positive zero. Every operation below returns
  binary64 values when given binary64 values; \<open>fl\<close> rounds an exact rational
  result to the nearest binary64 value, ties to the even significand.
\<close>

datatype jsnum = NaN | PosInf | NegInf | NegZero | Fin rat

function bit_length :: "int \<Rightarrow> int" where
  "bit_length n = (if n \<le> 0 then 0 else 1 + bit_length (n div 2))"
  by pat_completeness auto
termination
  by (relation "measure nat") auto

declare bit_length.simps [simp del]

definition pow2 :: "int \<Rightarrow> rat" where
  "pow2 p = (if 0 \<le> p then 2 ^ nat p else 1 / 2 ^ nat (- p))"

text \<open>\<open>ilog2 a\<close> is the exponent \<open>e\<close> with \<open>2^e \<le> a < 2^(e+1)\<close>, for \<open>a > 0\<close>.\<close>

definition ilog2 :: "rat \<Rightarrow> int" where
  "ilog2 a = (let (n, d) = quotient_of a;
                  k = bit_length n - bit_length d
              in if pow2 k \<le> a then k else k - 1)"

definition round_half_even :: "rat \<Rightarrow> int" where
  "round_half_even x = (let f = \<lfloor>x\<rfloor>; d = x - of_int f
     in if d < 1 / 2 then f else if 1 / 2 < d then f + 1
        else if even f then f else f + 1)"

text \<open>
  Rounding to binary64: 53 significant bits, least exponent \<open>-1074\<close> (subnormal
  numbers), overflow to an infinity from \<open>2^1024\<close> on, a result of magnitude zero
  keeps the sign.
\<close>

definition fl :: "rat \<Rightarrow> jsnum" where
  "fl q = (if q = 0 then Fin 0 else
     let a = \<bar>q\<bar>; e = ilog2 a; p = max (e - 52) (- 1074);
         m = round_half_even (a / pow2 p); v = of_int m * pow2 p
     in if 2 ^ 1024 \<le> v then (if 0 < q then PosInf else NegInf)
        else if v = 0 then (if q < 0 then NegZero else Fin 0)
        else Fin (if 0 < q then v else - v))"

definition num_isNaN :: "jsnum \<Rightarrow> bool" where
  "num_isNaN x = (x = NaN)"

definition num_isFinite :: "jsnum \<Rightarrow> bool" where
  "num_isFinite x = (x \<noteq> NaN \<and> x \<noteq> PosInf \<and> x \<noteq> NegInf)"

definition num_negative :: "jsnum \<Rightarrow> bool" where
  "num_negative x = (case x of NegInf \<Rightarrow> True | NegZero \<Rightarrow> True | Fin q \<Rightarrow> q < 0 | _ \<Rightarrow> False)"

definition num_zero :: "jsnum \<Rightarrow> bool" where
  "num_zero x = (x = NegZero \<or> x = Fin 0)"

definition num_neg :: "jsnum \<Rightarrow> jsnum" where
  "num_neg x = (case x of NaN \<Rightarrow> NaN | PosInf \<Rightarrow> NegInf | NegInf \<Rightarrow> PosInf
     | NegZero \<Rightarrow> Fin 0 | Fin q \<Rightarrow> (if q = 0 then NegZero else Fin (- q)))"

text \<open>The value of a finite number as a rational (both zeros are 0).\<close>

definition num_rat :: "jsnum \<Rightarrow> rat" where
  "num_rat x = (case x of Fin q \<Rightarrow> q | _ \<Rightarrow> 0)"

text \<open>\<open>Number::add\<close>, \<open>Number::subtract\<close>, \<open>Number::multiply\<close>, \<open>Number::divide\<close>.\<close>

definition num_add :: "jsnum \<Rightarrow> jsnum \<Rightarrow> jsnum" where
  "num_add x y =
    (if x = NaN \<or> y = NaN then NaN
     else if x = PosInf then (if y = NegInf then NaN else PosInf)
     else if x = NegInf then (if y = PosInf then NaN else NegInf)
     else if y = PosInf \<or> y = NegInf then y
     else if x = NegZero then y
     else if y = NegZero then x
     else fl (num_rat x + num_rat y))"

definition num_sub :: "jsnum \<Rightarrow> jsnum \<Rightarrow> jsnum" where
  "num_sub x y = num_add x (num_neg y)"

definition signed_inf :: "bool \<Rightarrow> jsnum" where
  "signed_inf neg = (if neg then NegInf else PosInf)"

definition signed_zero :: "bool \<Rightarrow> jsnum" where
  "signed_zero neg = (if neg then NegZero else Fin 0)"

definition num_mul :: "jsnum \<Rightarrow> jsnum \<Rightarrow> jsnum" where
  "num_mul x y =
    (let neg = (num_negative x \<noteq> num_negative y) in
     if x = NaN \<or> y = NaN then NaN
     else if \<not> num_isFinite x \<or> \<not> num_isFinite y
       then (if num_zero x \<or> num_zero y then NaN else signed_inf neg)
     else if num_zero x \<or> num_zero y then signed_zero neg
     else fl (num_rat x * num_rat y))"

definition num_div :: "jsnum \<Rightarrow> jsnum \<Rightarrow> jsnum" where
  "num_div x y =
    (let neg = (num_negative x \<noteq> num_negative y) in
     if x = NaN \<or> y = NaN then NaN
     else if \<not> num_isFinite x then (if \<not> num_isFinite y then NaN else signed_inf neg)
     else if \<not> num_isFinite y then signed_zero neg
     else if num_zero y then (if num_zero x then NaN else signed_inf neg)
     else if num_zero x then signed_zero neg
     else fl (num_rat x / num_rat y))"

text \<open>\<open>Number::equal\<close>: not-a-number equals nothing, the two zeros are equal.\<close>

definition num_equal :: "jsnum \<Rightarrow> jsnum \<Rightarrow> bool" where
  "num_equal x y = (x \<noteq> NaN \<and> y \<noteq> NaN \<and> (x = y \<or> (num_zero x \<and> num_zero y)))"

section \<open>The host language: strings and their numeric values\<close>

text \<open>
  A JavaScript string is a sequence of code units. The model uses \<open>string\<close>, whose
  characters are the code units below 256; \<open>char_code\<close> is the code unit.
\<close>

definition char_code :: "char \<Rightarrow> int" where
  "char_code c = of_char c"

definition digit_char :: "int \<Rightarrow> char" where
  "digit_char d = ''0123456789'' ! nat d"

text \<open>The value of a digit of any radix up to 36: \<open>0-9\<close>, \<open>a-z\<close>, \<open>A-Z\<close>.\<close>

definition digit_val :: "char \<Rightarrow> int option" where
  "digit_val c = (let n = char_code c in
     if 48 \<le> n \<and> n \<le> 57 then Some (n - 48)
     else if 97 \<le> n \<and> n \<le> 122 then Some (n - 87)
     else if 65 \<le> n \<and> n \<le> 90 then Some (n - 55)
     else None)"

definition is_digit_in :: "int \<Rightarrow> char \<Rightarrow> bool" where
  "is_digit_in R c = (case digit_val c of Some d \<Rightarrow> d < R | None \<Rightarrow> False)"

definition digits_value :: "int \<Rightarrow> string \<Rightarrow> int" where
  "digits_value R ds =
     foldl (\<lambda>acc c. R * acc + (case digit_val c of Some d \<Rightarrow> d | None \<Rightarrow> 0)) 0 ds"

text \<open>The decimal digits of a non-negative integer.\<close>

function dec :: "int \<Rightarrow> string" where
  "dec n = (if n < 10 then [digit_char n] else dec (n div 10) @ [digit_char (n mod 10)])"
  by pat_completeness auto
termination
  by (relation "measure nat") auto

declare dec.simps [simp del]

definition pow10 :: "int \<Rightarrow> rat" where
  "pow10 p = (if 0 \<le> p then 10 ^ nat p else 1 / 10 ^ nat (- p))"

text \<open>\<open>ilog10 a\<close> is the exponent \<open>e\<close> with \<open>10^e \<le> a < 10^(e+1)\<close>, for \<open>a > 0\<close>.\<close>

definition ilog10 :: "rat \<Rightarrow> int" where
  "ilog10 a = (let (n, d) = quotient_of a;
                   k = int (length (dec n)) - int (length (dec d))
               in if pow10 k \<le> a then k else k - 1)"

subsection \<open>\<open>Number::toString\<close>, radix 10\<close>

text \<open>
  For a finite \<open>x > 0\<close> ECMAScript takes integers \<open>n\<close>, \<open>k\<close>, \<open>s\<close> with
  \<open>k \<ge> 1\<close>, \<open>10^(k-1) \<le> s < 10^k\<close>, \<open>s * 10^(n-k)\<close> rounding to \<open>x\<close> and \<open>k\<close> as
  small as possible (the \<open>s\<close> closest to \<open>x\<close>, the even one on a tie), and renders
  \<open>s\<close> with the decimal point or exponent that \<open>n\<close> asks for.
  \<open>digit_candidates q k\<close> are the pairs \<open>(n, s)\<close> for one \<open>k\<close>.
\<close>

definition digit_candidates :: "rat \<Rightarrow> int \<Rightarrow> (int \<times> int) list" where
  "digit_candidates q k =
     (let n0 = ilog10 q + 1 in
      filter (\<lambda>(n, s). 10 ^ nat (k - 1) \<le> s \<and> s < 10 ^ nat k
                        \<and> fl (of_int s * pow10 (n - k)) = Fin q)
        (concat (map (\<lambda>n. let f = \<lfloor>q / pow10 (n - k)\<rfloor> in [(n, f), (n, f + 1)])
                     [n0, n0 + 1])))"

definition closer :: "rat \<Rightarrow> int \<Rightarrow> int \<times> int \<Rightarrow> int \<times> int \<Rightarrow> int \<times> int" where
  "closer q k a b =
     (let da = \<bar>of_int (snd a) * pow10 (fst a - k) - q\<bar>;
          db = \<bar>of_int (snd b) * pow10 (fst b - k) - q\<bar>
      in if db < da \<or> (db = da \<and> even (snd b) \<and> odd (snd a)) then b else a)"

text \<open>
  Every binary64 value has a candidate with at most 17 digits; the last case is
  for rationals that are no binary64 value.
\<close>

definition shortest_digits :: "rat \<Rightarrow> int \<times> int \<times> int" where
  "shortest_digits q =
     (case filter (\<lambda>k. digit_candidates q k \<noteq> []) [1..17] of
        k # _ \<Rightarrow>
          (case digit_candidates q k of
             c # cs \<Rightarrow> (let (n, s) = foldl (closer q k) c cs in (n, k, s))
           | [] \<Rightarrow> (ilog10 q + 1, k, 0))
      | [] \<Rightarrow> (ilog10 q + 1, 17, round_half_even (q / pow10 (ilog10 q + 1 - 17))))"

definition render_digits :: "int \<Rightarrow> int \<Rightarrow> int \<Rightarrow> string" where
  "render_digits n k s =
     (let ds = dec s;
          ex = (if n - 1 < 0 then ''-'' else ''+'') @ dec \<bar>n - 1\<bar>
      in if k \<le> n \<and> n \<le> 21 then ds @ replicate (nat (n - k)) CHR ''0''
         else if 0 < n \<and> n \<le> 21 then take (nat n) ds @ ''.'' @ drop (nat n) ds
         else if - 6 < n \<and> n \<le> 0 then ''0.'' @ replicate (nat (- n)) CHR ''0'' @ ds
         else if k = 1 then ds @ ''e'' @ ex
         else take 1 ds @ ''.'' @ drop 1 ds @ ''e'' @ ex)"

text \<open>
  An integer below \<open>2^53\<close> is a binary64 value and the only decimal that rounds
  to it with no more digits than it has, so its rendering is its decimal
  digits; the first case says so directly.
\<close>

definition positive_to_string :: "rat \<Rightarrow> string" where
  "positive_to_string q =
     (if of_int \<lfloor>q\<rfloor> = q \<and> q < 2 ^ 53 then dec \<lfloor>q\<rfloor>
      else let (n, k, s) = shortest_digits q in render_digits n k s)"

definition NumberToString :: "jsnum \<Rightarrow> string" where
  "NumberToString x =
     (case x of
        NaN \<Rightarrow> ''NaN''
      | PosInf \<Rightarrow> ''Infinity''
      | NegInf \<Rightarrow> ''-Infinity''
      | NegZero \<Rightarrow> ''0''
      | Fin q \<Rightarrow> (if q = 0 then ''0''
                  else (if q < 0 then ''-'' else []) @ positive_to_string \<bar>q\<bar>))"

subsection \<open>\<open>StringToNumber\<close> and \<open>parseInt\<close>\<close>

text \<open>White space and line terminators among the code units below 256.\<close>

definition is_white :: "char \<Rightarrow> bool" where
  "is_white c = (char_code c \<in> {9, 10, 11, 12, 13, 32, 160})"

definition trim :: "string \<Rightarrow> string" where
  "trim s = rev (dropWhile is_white (rev (dropWhile is_white s)))"

text \<open>\<open>0x\<close>, \<open>0o\<close> and \<open>0b\<close> literals: the prefix and at least one digit of the radix.\<close>

definition nondecimal_literal :: "string \<Rightarrow> int option" where
  "nondecimal_literal s =
     (case s of
        c0 # c1 # ds \<Rightarrow>
          (let R = (if c1 = CHR ''x'' \<or> c1 = CHR ''X'' then 16
                    else if c1 = CHR ''o'' \<or> c1 = CHR ''O'' then 8
                    else if c1 = CHR ''b'' \<or> c1 = CHR ''B'' then 2 else 0)
           in if c0 = CHR ''0'' \<and> R \<noteq> 0 \<and> ds \<noteq> [] \<and> list_all (is_digit_in R) ds
              then Some (digits_value R ds) else None)
      | _ \<Rightarrow> None)"

text \<open>
  An unsigned decimal literal other than \<open>Infinity\<close>: digits, an optional point
  and digits, an optional exponent; at least one digit before the exponent.
\<close>

definition exponent_part :: "string \<Rightarrow> int option" where
  "exponent_part r =
     (let neg = (case r of c # _ \<Rightarrow> c = CHR ''-'' | [] \<Rightarrow> False);
          ds = (case r of c # t \<Rightarrow> (if c = CHR ''-'' \<or> c = CHR ''+'' then t else r) | [] \<Rightarrow> r)
      in if ds \<noteq> [] \<and> list_all (is_digit_in 10) ds
         then Some ((if neg then - 1 else 1) * digits_value 10 ds) else None)"

definition unsigned_decimal :: "string \<Rightarrow> rat option" where
  "unsigned_decimal s =
     (let ip = takeWhile (is_digit_in 10) s;
          r1 = dropWhile (is_digit_in 10) s;
          (fp, r2) = (case r1 of
                        c # t \<Rightarrow> (if c = CHR ''.''
                                   then (takeWhile (is_digit_in 10) t, dropWhile (is_digit_in 10) t)
                                   else ([], r1))
                      | [] \<Rightarrow> ([], r1));
          mant = of_int (digits_value 10 ip) + of_int (digits_value 10 fp) / 10 ^ length fp
      in if ip = [] \<and> fp = [] then None
         else (case r2 of
                 [] \<Rightarrow> Some mant
               | c # r3 \<Rightarrow>
                   (if c = CHR ''e'' \<or> c = CHR ''E''
                    then (case exponent_part r3 of
                            Some e \<Rightarrow> Some (mant * pow10 e)
                          | None \<Rightarrow> None)
                    else None)))"

definition StringToNumber :: "string \<Rightarrow> jsnum" where
  "StringToNumber str =
     (let s = trim str in
      if s = [] then Fin 0
      else (case nondecimal_literal s of
              Some n \<Rightarrow> fl (of_int n)
            | None \<Rightarrow>
                (let neg = (hd s = CHR ''-'');
                     u = (if hd s = CHR ''-'' \<or> hd s = CHR ''+'' then tl s else s);
                     r = (if u = ''Infinity'' then PosInf
                          else (case unsigned_decimal u of
                                  Some mv \<Rightarrow> fl mv
                                | None \<Rightarrow> NaN))
                 in if neg then num_neg r else r)))"

text \<open>
  \<open>parseInt(string)\<close> with no radix, after the argument is a string: leading white
  space and a sign are dropped, \<open>0x\<close> selects radix 16, the longest prefix of
  digits is read, no digit gives not-a-number.
\<close>

definition parseInt_str :: "string \<Rightarrow> jsnum" where
  "parseInt_str inputString =
     (let S0 = dropWhile is_white inputString;
          neg = (case S0 of c # _ \<Rightarrow> c = CHR ''-'' | [] \<Rightarrow> False);
          S1 = (case S0 of
                  c # t \<Rightarrow> (if c = CHR ''+'' \<or> c = CHR ''-'' then t else S0)
                | [] \<Rightarrow> S0);
          hex = (take 2 S1 = ''0x'' \<or> take 2 S1 = ''0X'');
          R = (if hex then 16 else 10);
          S2 = (if hex then drop 2 S1 else S1);
          Z = takeWhile (is_digit_in R) S2;
          mathInt = digits_value R Z
      in if Z = [] then NaN
         else if mathInt = 0 then (if neg then NegZero else Fin 0)
         else fl (of_int (if neg then - mathInt else mathInt)))"

section \<open>The host language: values, conversions and operators\<close>

text \<open>
  The primitive values of JavaScript. A symbol is represented by its
  description. Objects are not modelled: converting one runs code of the
  caller's (\<open>toString\<close>, \<open>valueOf\<close>), which is outside the class.
\<close>

datatype jsval =
    Undefined
  | Null
  | Bool bool
  | Num jsnum
  | Str string
  | Sym string
  | BigInt int

text \<open>What a \<open>throw\<close> carries: the class and the host throw errors with a message.\<close>

datatype error = TypeError string | RangeError string

definition and_then :: "error + 'a \<Rightarrow> ('a \<Rightarrow> error + 'b) \<Rightarrow> error + 'b" where
  "and_then r f = (case r of Inl e \<Rightarrow> Inl e | Inr x \<Rightarrow> f x)"

definition BigIntToString :: "int \<Rightarrow> string" where
  "BigIntToString n = (if n < 0 then ''-'' @ dec (- n) else dec n)"

text \<open>The abstract operation \<open>ToString\<close>, which template literals and \<open>+\<close> apply.\<close>

definition ToString :: "jsval \<Rightarrow> error + string" where
  "ToString v =
     (case v of
        Undefined \<Rightarrow> Inr ''undefined''
      | Null \<Rightarrow> Inr ''null''
      | Bool b \<Rightarrow> Inr (if b then ''true'' else ''false'')
      | Num n \<Rightarrow> Inr (NumberToString n)
      | Str s \<Rightarrow> Inr s
      | Sym d \<Rightarrow> Inl (TypeError ''Cannot convert a Symbol value to a string'')
      | BigInt n \<Rightarrow> Inr (BigIntToString n))"

text \<open>The function \<open>String(value)\<close>: a symbol gives its descriptive string.\<close>

definition String_call :: "jsval \<Rightarrow> error + string" where
  "String_call v =
     (case v of
        Sym d \<Rightarrow> Inr (''Symbol('' @ d @ '')'')
      | _ \<Rightarrow> ToString v)"

definition ToNumber :: "jsval \<Rightarrow> error + jsnum" where
  "ToNumber v =
     (case v of
        Undefined \<Rightarrow> Inr NaN
      | Null \<Rightarrow> Inr (Fin 0)
      | Bool b \<Rightarrow> Inr (if b then Fin 1 else Fin 0)
      | Num n \<Rightarrow> Inr n
      | Str s \<Rightarrow> Inr (StringToNumber s)
      | Sym d \<Rightarrow> Inl (TypeError ''Cannot convert a Symbol value to a number'')
      | BigInt n \<Rightarrow> Inl (TypeError ''Cannot convert a BigInt value to a number''))"

text \<open>The function \<open>Number(value)\<close>: a BigInt is converted, anything else is \<open>ToNumber\<close>.\<close>

definition Number_call :: "jsval \<Rightarrow> error + jsnum" where
  "Number_call v =
     (case v of
        BigInt n \<Rightarrow> Inr (fl (of_int n))
      | _ \<Rightarrow> ToNumber v)"

text \<open>The global functions \<open>isFinite\<close> and \<open>isNaN\<close> convert their argument first.\<close>

definition isFinite_call :: "jsval \<Rightarrow> error + bool" where
  "isFinite_call v = and_then (ToNumber v) (\<lambda>n. Inr (num_isFinite n))"

definition isNaN_call :: "jsval \<Rightarrow> error + bool" where
  "isNaN_call v = and_then (ToNumber v) (\<lambda>n. Inr (num_isNaN n))"

definition ToBoolean :: "jsval \<Rightarrow> bool" where
  "ToBoolean v =
     (case v of
        Undefined \<Rightarrow> False
      | Null \<Rightarrow> False
      | Bool b \<Rightarrow> b
      | Num n \<Rightarrow> \<not> (num_zero n \<or> n = NaN)
      | Str s \<Rightarrow> s \<noteq> []
      | Sym d \<Rightarrow> True
      | BigInt n \<Rightarrow> n \<noteq> 0)"

subsection \<open>Loose equality \<open>==\<close>\<close>

definition StringToBigInt :: "string \<Rightarrow> int option" where
  "StringToBigInt str =
     (let s = trim str in
      if s = [] then Some 0
      else (case nondecimal_literal s of
              Some n \<Rightarrow> Some n
            | None \<Rightarrow>
                (let neg = (hd s = CHR ''-'');
                     u = (if hd s = CHR ''-'' \<or> hd s = CHR ''+'' then tl s else s)
                 in if u \<noteq> [] \<and> list_all (is_digit_in 10) u
                    then Some ((if neg then - 1 else 1) * digits_value 10 u)
                    else None)))"

text \<open>A boolean operand is compared as the number it converts to.\<close>

definition unbool :: "jsval \<Rightarrow> jsval" where
  "unbool v = (case v of Bool b \<Rightarrow> Num (if b then Fin 1 else Fin 0) | _ \<Rightarrow> v)"

fun loose_core :: "jsval \<Rightarrow> jsval \<Rightarrow> bool" where
  "loose_core Undefined Undefined = True"
| "loose_core Undefined Null = True"
| "loose_core Null Undefined = True"
| "loose_core Null Null = True"
| "loose_core (Num x) (Num y) = num_equal x y"
| "loose_core (Str s) (Str t) = (s = t)"
| "loose_core (Sym a) (Sym b) = (a = b)"
| "loose_core (BigInt a) (BigInt b) = (a = b)"
| "loose_core (Num x) (Str s) = num_equal x (StringToNumber s)"
| "loose_core (Str s) (Num y) = num_equal (StringToNumber s) y"
| "loose_core (BigInt n) (Str s) = (StringToBigInt s = Some n)"
| "loose_core (Str s) (BigInt n) = (StringToBigInt s = Some n)"
| "loose_core (BigInt n) (Num y) = (num_isFinite y \<and> of_int n = num_rat y)"
| "loose_core (Num x) (BigInt n) = (num_isFinite x \<and> of_int n = num_rat x)"
| "loose_core _ _ = False"

definition IsLooselyEqual :: "jsval \<Rightarrow> jsval \<Rightarrow> bool" where
  "IsLooselyEqual x y = loose_core (unbool x) (unbool y)"

subsection \<open>The operators \<open>+\<close>, \<open>-\<close>, \<open>*\<close>, \<open>/\<close>\<close>

datatype numeric = IsNumber jsnum | IsBigInt int

definition ToNumeric :: "jsval \<Rightarrow> error + numeric" where
  "ToNumeric v =
     (case v of
        BigInt n \<Rightarrow> Inr (IsBigInt n)
      | _ \<Rightarrow> and_then (ToNumber v) (\<lambda>n. Inr (IsNumber n)))"

definition js_arith ::
  "(jsnum \<Rightarrow> jsnum \<Rightarrow> jsnum) \<Rightarrow> (int \<Rightarrow> int \<Rightarrow> error + int) \<Rightarrow> jsval \<Rightarrow> jsval \<Rightarrow> error + jsval"
where
  "js_arith fnum fbig l r =
     and_then (ToNumeric l) (\<lambda>ln.
     and_then (ToNumeric r) (\<lambda>rn.
       (case (ln, rn) of
          (IsNumber x, IsNumber y) \<Rightarrow> Inr (Num (fnum x y))
        | (IsBigInt a, IsBigInt b) \<Rightarrow> and_then (fbig a b) (\<lambda>c. Inr (BigInt c))
        | _ \<Rightarrow> Inl (TypeError ''Cannot mix BigInt and other types''))))"

definition bigint_div :: "int \<Rightarrow> int \<Rightarrow> error + int" where
  "bigint_div a b =
     (if b = 0 then Inl (RangeError ''Division by zero'')
      else Inr (sgn a * sgn b * (\<bar>a\<bar> div \<bar>b\<bar>)))"

definition is_Str :: "jsval \<Rightarrow> bool" where
  "is_Str v = (case v of Str s \<Rightarrow> True | _ \<Rightarrow> False)"

text \<open>\<open>left + right\<close>: concatenation when either operand is a string.\<close>

definition js_add :: "jsval \<Rightarrow> jsval \<Rightarrow> error + jsval" where
  "js_add l r =
     (if is_Str l \<or> is_Str r
      then and_then (ToString l) (\<lambda>ls. and_then (ToString r) (\<lambda>rs. Inr (Str (ls @ rs))))
      else js_arith num_add (\<lambda>a b. Inr (a + b)) l r)"

definition js_sub :: "jsval \<Rightarrow> jsval \<Rightarrow> error + jsval" where
  "js_sub l r = js_arith num_sub (\<lambda>a b. Inr (a - b)) l r"

definition js_mul :: "jsval \<Rightarrow> jsval \<Rightarrow> error + jsval" where
  "js_mul l r = js_arith num_mul (\<lambda>a b. Inr (a * b)) l r"

definition js_div :: "jsval \<Rightarrow> jsval \<Rightarrow> error + jsval" where
  "js_div l r = js_arith num_div bigint_div l r"

section \<open>The host language: regular expressions\<close>

text \<open>
  The constructs the pattern of \<open>SemVer.regexp\<close> uses: the assertions \<open>^\<close> and
  \<open>$\<close> (no multiline flag), a character, a character class given by its ranges,
  sequence, alternation, the greedy quantifiers \<open>*\<close> and \<open>?\<close>, and a capturing
  group with its number. A non-capturing group \<open>(?:...)\<close> is the term inside it.
\<close>

datatype regex =
    Bol
  | Eol
  | Chr char
  | Cls "(char \<times> char) list"
  | Seq regex regex
  | Alt regex regex
  | Star regex
  | Opt regex
  | Grp nat regex

definition in_class :: "(char \<times> char) list \<Rightarrow> char \<Rightarrow> bool" where
  "in_class rs c = list_ex (\<lambda>(lo, hi). char_code lo \<le> char_code c \<and> char_code c \<le> char_code hi) rs"

text \<open>
  A backtracking matcher tries the alternatives of a pattern in a fixed order and
  returns the first that lets the rest of the pattern match. \<open>matchl inp r (s, c)\<close>
  lists, in that order, every way \<open>r\<close> can match a prefix of the rest \<open>s\<close> of the
  input \<open>inp\<close>: the rest after the match and the captures, latest first. A
  quantifier tries one more iteration before it tries to stop, and an iteration
  that matches the empty string is refused.
\<close>

type_synonym captures = "(nat \<times> string) list"

fun matchl :: "string \<Rightarrow> regex \<Rightarrow> string \<times> captures \<Rightarrow> (string \<times> captures) list" where
  "matchl inp Bol (s, c) = (if length s = length inp then [(s, c)] else [])"
| "matchl inp Eol (s, c) = (if s = [] then [(s, c)] else [])"
| "matchl inp (Chr a) (s, c) =
     (case s of x # t \<Rightarrow> (if x = a then [(t, c)] else []) | [] \<Rightarrow> [])"
| "matchl inp (Cls rs) (s, c) =
     (case s of x # t \<Rightarrow> (if in_class rs x then [(t, c)] else []) | [] \<Rightarrow> [])"
| "matchl inp (Seq r1 r2) (s, c) = concat (map (matchl inp r2) (matchl inp r1 (s, c)))"
| "matchl inp (Alt r1 r2) (s, c) = matchl inp r1 (s, c) @ matchl inp r2 (s, c)"
| "matchl inp (Star r) (s, c) =
     concat (map (\<lambda>(s', c'). if length s' < length s then matchl inp (Star r) (s', c') else [])
                 (matchl inp r (s, c)))
     @ [(s, c)]"
| "matchl inp (Opt r) (s, c) =
     filter (\<lambda>(s', c'). length s' < length s) (matchl inp r (s, c)) @ [(s, c)]"
| "matchl inp (Grp n r) (s, c) =
     map (\<lambda>(s', c'). (s', (n, take (length s - length s') s) # c')) (matchl inp r (s, c))"

declare matchl.simps(7) [simp del]

fun ngroups :: "regex \<Rightarrow> nat" where
  "ngroups (Seq r1 r2) = ngroups r1 + ngroups r2"
| "ngroups (Alt r1 r2) = ngroups r1 + ngroups r2"
| "ngroups (Star r) = ngroups r"
| "ngroups (Opt r) = ngroups r"
| "ngroups (Grp n r) = Suc (ngroups r)"
| "ngroups _ = 0"

text \<open>
  \<open>RegExp.prototype.exec\<close> of a pattern with no flags: the first index, from 0,
  where the pattern matches; the array of the matched text and of each group's
  capture (\<open>None\<close> is \<open>undefined\<close>), or \<open>null\<close>.
\<close>

definition match_at :: "regex \<Rightarrow> string \<Rightarrow> nat \<Rightarrow> string option list option" where
  "match_at r inp i =
     (case matchl inp r (drop i inp, []) of
        [] \<Rightarrow> None
      | (s', c) # _ \<Rightarrow>
          Some (Some (take (length inp - i - length s') (drop i inp))
                # map (map_of c) [1..<Suc (ngroups r)]))"

definition regexp_exec :: "regex \<Rightarrow> string \<Rightarrow> string option list option" where
  "regexp_exec r inp =
     (case List.map_filter (match_at r inp) [0..<Suc (length inp)] of
        [] \<Rightarrow> None
      | m # _ \<Rightarrow> Some m)"

section \<open>The class \<open>SemVer\<close>\<close>

subsection \<open>Static properties\<close>

definition kMajor :: string where "kMajor = ''major''"
definition kMinor :: string where "kMinor = ''minor''"
definition kPatch :: string where "kPatch = ''patch''"
definition kPrerelease :: string where "kPrerelease = ''prerelease''"
definition kBuild :: string where "kBuild = ''build''"

definition kAllParts :: "string list" where
  "kAllParts = [kMajor, kMinor, kPatch, kPrerelease, kBuild]"

definition kNumericParts :: "string list" where
  "kNumericParts = [kMajor, kMinor, kPatch]"

definition kStringParts :: "string list" where
  "kStringParts = [kPrerelease, kBuild]"

type_synonym operator = "jsval \<Rightarrow> jsval \<Rightarrow> error + jsval"

definition kAdd :: "string \<times> operator" where
  "kAdd = (''+'', \<lambda>left right. js_add left right)"

definition kDivide :: "string \<times> operator" where
  "kDivide = (''/'', \<lambda>left right. js_div left right)"

definition kMultiply :: "string \<times> operator" where
  "kMultiply = (''*'', \<lambda>left right. js_mul left right)"

definition kSubtract :: "string \<times> operator" where
  "kSubtract = (''-'', \<lambda>left right. js_sub left right)"

definition kOperatorNames :: "string list" where
  "kOperatorNames = map (\<lambda>(string, _). string) [kAdd, kDivide, kMultiply, kSubtract]"

text \<open>\<open>Object.fromEntries\<close> of the four pairs: an object keyed by the symbols.\<close>

definition kOperators :: "string \<rightharpoonup> operator" where
  "kOperators = map_of [kAdd, kDivide, kMultiply, kSubtract]"

subsection \<open>The pattern\<close>

definition digit :: regex where
  "digit = Cls [(CHR ''0'', CHR ''9'')]"

definition plus :: "regex \<Rightarrow> regex" where
  "plus r = Seq r (Star r)"

text \<open>\<open>0|[1-9]\d*\<close>\<close>

definition numeric_identifier :: regex where
  "numeric_identifier = Alt (Chr CHR ''0'') (Seq (Cls [(CHR ''1'', CHR ''9'')]) (Star digit))"

text \<open>\<open>0|[1-9]\d*|\d*[a-zA-Z-][0-9a-zA-Z-]*\<close>\<close>

definition prerelease_identifier :: regex where
  "prerelease_identifier =
     Alt (Chr CHR ''0'')
       (Alt (Seq (Cls [(CHR ''1'', CHR ''9'')]) (Star digit))
            (Seq (Star digit)
              (Seq (Cls [(CHR ''a'', CHR ''z''), (CHR ''A'', CHR ''Z''), (CHR ''-'', CHR ''-'')])
                   (Star (Cls [(CHR ''0'', CHR ''9''), (CHR ''a'', CHR ''z''),
                               (CHR ''A'', CHR ''Z''), (CHR ''-'', CHR ''-'')])))))"

text \<open>\<open>[0-9a-zA-Z-]+\<close>\<close>

definition build_identifier :: regex where
  "build_identifier =
     plus (Cls [(CHR ''0'', CHR ''9''), (CHR ''a'', CHR ''z''),
                (CHR ''A'', CHR ''Z''), (CHR ''-'', CHR ''-'')])"

text \<open>The six strings of \<open>semverParts\<close>, joined.\<close>

definition regexp :: regex where
  "regexp =
     Seq Bol (Seq (Grp 1 numeric_identifier)
     (Seq (Chr CHR ''.'') (Seq (Grp 2 numeric_identifier)
     (Seq (Chr CHR ''.'') (Seq (Grp 3 numeric_identifier)
     (Seq (Opt (Seq (Chr CHR ''-'')
            (Grp 4 (Seq prerelease_identifier
                        (Star (Seq (Chr CHR ''.'') prerelease_identifier))))))
     (Seq (Opt (Seq (Chr CHR ''+'')
            (Grp 5 (Seq build_identifier
                        (Star (Seq (Chr CHR ''.'') build_identifier))))))
          Eol)))))))"

subsection \<open>\<open>SemVer.test\<close>\<close>

text \<open>
  The object \<open>test\<close> returns has the five parts (its \<open>Symbol.toStringTag\<close> getter
  has no effect on them); an instance has the same five and \<open>input\<close>. A field
  holds any value: the class writes numbers to the first three and a string or
  \<open>undefined\<close> to the other two, and \<open>adjustBy\<close> writes what the operator returns.
\<close>

record ParsedSemVer =
  major :: jsval
  minor :: jsval
  patch :: jsval
  prerelease :: jsval
  build :: jsval

record SemVer = ParsedSemVer +
  input :: jsval

text \<open>An element of the array destructuring: a missing element is \<open>undefined\<close>.\<close>

definition element :: "string option list \<Rightarrow> nat \<Rightarrow> jsval" where
  "element arr i =
     (if i < length arr then (case arr ! i of Some s \<Rightarrow> Str s | None \<Rightarrow> Undefined)
      else Undefined)"

definition parseInt :: "jsval \<Rightarrow> error + jsnum" where
  "parseInt v = and_then (ToString v) (\<lambda>s. Inr (parseInt_str s))"

text \<open>\<open>None\<close> is the \<open>null\<close> that \<open>test\<close> returns.\<close>

definition test :: "jsval \<Rightarrow> error + ParsedSemVer option" where
  "test string =
     and_then (String_call string) (\<lambda>s.
       let arr = (case regexp_exec regexp s of Some m \<Rightarrow> m | None \<Rightarrow> []);
           input = element arr 0;
           major = element arr 1;
           minor = element arr 2;
           patch = element arr 3;
           prerelease = element arr 4;
           build = element arr 5
       in if ToBoolean input
          then and_then (parseInt major) (\<lambda>mj.
               and_then (parseInt minor) (\<lambda>mn.
               and_then (parseInt patch) (\<lambda>pt.
                 Inr (Some \<lparr>major = Num mj, minor = Num mn, patch = Num pt,
                            prerelease = prerelease, build = build\<rparr>))))
          else Inr None)"

subsection \<open>The constructor\<close>

definition SemVer_new :: "jsval \<Rightarrow> error + SemVer" where
  "SemVer_new string0 =
     and_then (String_call string0) (\<lambda>s0.
       let string = (if IsLooselyEqual (Str s0) (Str ''undefined'') then ''0.0.0'' else s0) in
       and_then (test (Str string)) (\<lambda>result.
         (case result of
            None \<Rightarrow> Inl (TypeError ''The supplied string is not a valid semver number.'')
          | Some r \<Rightarrow>
              Inr \<lparr>major = major r, minor = minor r, patch = patch r,
                   prerelease = prerelease r, build = build r, input = Str string\<rparr>)))"

subsection \<open>Instance methods\<close>

text \<open>
  \<open>this[part]\<close>: the key of a property is the string of the value, or the symbol
  itself. The record tracks the six properties the class defines; another key
  reads \<open>undefined\<close> and writing to it changes none of the six.
\<close>

definition property_key :: "jsval \<Rightarrow> string option" where
  "property_key v =
     (case v of
        Sym d \<Rightarrow> None
      | _ \<Rightarrow> (case ToString v of Inr s \<Rightarrow> Some s | Inl e \<Rightarrow> None))"

definition get_prop :: "SemVer \<Rightarrow> jsval \<Rightarrow> jsval" where
  "get_prop this key =
     (case property_key key of
        None \<Rightarrow> Undefined
      | Some k \<Rightarrow>
          (if k = ''major'' then major this
           else if k = ''minor'' then minor this
           else if k = ''patch'' then patch this
           else if k = ''prerelease'' then prerelease this
           else if k = ''build'' then build this
           else if k = ''input'' then input this
           else Undefined))"

definition set_prop :: "SemVer \<Rightarrow> jsval \<Rightarrow> jsval \<Rightarrow> SemVer" where
  "set_prop this key v =
     (case property_key key of
        None \<Rightarrow> this
      | Some k \<Rightarrow>
          (if k = ''major'' then this\<lparr>major := v\<rparr>
           else if k = ''minor'' then this\<lparr>minor := v\<rparr>
           else if k = ''patch'' then this\<lparr>patch := v\<rparr>
           else if k = ''prerelease'' then this\<lparr>prerelease := v\<rparr>
           else if k = ''build'' then this\<lparr>build := v\<rparr>
           else if k = ''input'' then this\<lparr>input := v\<rparr>
           else this))"

text \<open>\<open>kOperators[operator]\<close>: no such property is \<open>undefined\<close>, here \<open>None\<close>.\<close>

definition lookup :: "(string \<rightharpoonup> 'a) \<Rightarrow> jsval \<Rightarrow> 'a option" where
  "lookup obj key = (case property_key key of None \<Rightarrow> None | Some k \<Rightarrow> obj k)"

text \<open>
  A method returns what it returns or throws, and the instance after the call.
  A parameter with a default takes it when the argument is \<open>undefined\<close>, which
  is also what a missing argument is.
\<close>

definition adjustBy :: "SemVer \<Rightarrow> jsval \<Rightarrow> jsval \<Rightarrow> jsval \<Rightarrow> (error + jsval) \<times> SemVer" where
  "adjustBy this part by operator0 =
     (let operator = (if operator0 = Undefined then Str ''+'' else operator0) in
      if \<not> list_ex (\<lambda>numericPart. IsLooselyEqual part (Str numericPart)) kNumericParts
      then (Inr Null, this)
      else if \<not> list_ex (\<lambda>operatorName. IsLooselyEqual (Str operatorName) operator) kOperatorNames
      then (Inr Null, this)
      else (case isFinite_call by of
              Inl e \<Rightarrow> (Inl e, this)
            | Inr fin \<Rightarrow>
                (if \<not> fin then (Inr Null, this)
                 else (case lookup kOperators operator of
                         None \<Rightarrow> (Inl (TypeError ''adjustor is not a function''), this)
                       | Some adjustor \<Rightarrow>
                           (case adjustor (get_prop this part) by of
                              Inl e \<Rightarrow> (Inl e, this)
                            | Inr v \<Rightarrow>
                                (let this' = set_prop this part v
                                 in (Inr (get_prop this' part), this')))))))"

definition adjustTo :: "SemVer \<Rightarrow> jsval \<Rightarrow> jsval \<Rightarrow> (error + jsval) \<times> SemVer" where
  "adjustTo this part to =
     (if \<not> list_ex (\<lambda>partName. IsLooselyEqual part (Str partName)) kAllParts
      then (Inr Null, this)
      else if list_ex (\<lambda>numericPart. IsLooselyEqual (Str numericPart) part) kNumericParts
      then (case Number_call to of
              Inl e \<Rightarrow> (Inl e, this)
            | Inr n \<Rightarrow>
                (case isNaN_call (Num n) of
                   Inl e \<Rightarrow> (Inl e, this)
                 | Inr nan \<Rightarrow>
                     (if nan then (Inr Null, this)
                      else (Inr (Num n), set_prop this part (Num n)))))
      else (case String_call to of
              Inl e \<Rightarrow> (Inl e, this)
            | Inr s \<Rightarrow> (Inr (Str s), set_prop this part (Str s))))"

definition bump :: "SemVer \<Rightarrow> jsval \<Rightarrow> jsval \<Rightarrow> (error + jsval) \<times> SemVer" where
  "bump this part by0 =
     (let by = (if by0 = Undefined then Num (Fin 1) else by0)
      in adjustBy this part by Undefined)"

text \<open>A template literal converts each substitution with \<open>ToString\<close>.\<close>

definition toString :: "SemVer \<Rightarrow> error + string" where
  "toString this =
     and_then (if ToBoolean (prerelease this)
               then and_then (ToString (prerelease this)) (\<lambda>p. Inr (''-'' @ p))
               else Inr []) (\<lambda>prerelease.
     and_then (if ToBoolean (build this)
               then and_then (ToString (build this)) (\<lambda>b. Inr (''+'' @ b))
               else Inr []) (\<lambda>build.
     and_then (ToString (major this)) (\<lambda>major.
     and_then (ToString (minor this)) (\<lambda>minor.
     and_then (ToString (patch this)) (\<lambda>patch.
       Inr (major @ ''.'' @ minor @ ''.'' @ patch @ prerelease @ build))))))"

fun groups :: "regex \<Rightarrow> nat set" where
  "groups (Seq r1 r2) = groups r1 \<union> groups r2"
| "groups (Alt r1 r2) = groups r1 \<union> groups r2"
| "groups (Star r) = groups r"
| "groups (Opt r) = groups r"
| "groups (Grp n r) = insert n (groups r)"
| "groups _ = {}"

fun min_len :: "regex \<Rightarrow> nat" where
  "min_len (Chr a) = 1"
| "min_len (Cls rs) = 1"
| "min_len (Seq r1 r2) = min_len r1 + min_len r2"
| "min_len (Alt r1 r2) = min (min_len r1) (min_len r2)"
| "min_len (Grp n r) = min_len r"
| "min_len _ = 0"

definition extends :: "regex \<Rightarrow> string \<times> captures \<Rightarrow> string \<times> captures \<Rightarrow> bool" where
  "extends r st st' =
     (\<exists>w d. fst st = w @ fst st' \<and> snd st' = d @ snd st \<and> fst ` set d \<subseteq> groups r
            \<and> min_len r \<le> length w)"

definition numid :: "string \<Rightarrow> bool" where
  "numid w = (w = ''0'' \<or>
     (\<exists>x t. w = x # t \<and> in_class [(CHR ''1'', CHR ''9'')] x
            \<and> list_all (in_class [(CHR ''0'', CHR ''9'')]) t))"

definition opt_part :: "char \<Rightarrow> string option \<Rightarrow> string" where
  "opt_part a x = (case x of None \<Rightarrow> [] | Some p \<Rightarrow> a # p)"

definition semver_text :: "string \<Rightarrow> string \<Rightarrow> string \<Rightarrow> string option \<Rightarrow> string option \<Rightarrow> string" where
  "semver_text ma mi pa pre bld =
     ma @ ''.'' @ mi @ ''.'' @ pa @ opt_part CHR ''-'' pre @ opt_part CHR ''+'' bld"

definition is_dec_digit :: "char \<Rightarrow> bool" where
  "is_dec_digit c = in_class [(CHR ''0'', CHR ''9'')] c"

definition plain_word :: "string \<Rightarrow> bool" where
  "plain_word s = (StringToNumber s = NaN \<and> StringToBigInt s = None)"

definition opt_val :: "string option \<Rightarrow> jsval" where
  "opt_val x = (case x of None \<Rightarrow> Undefined | Some p \<Rightarrow> Str p)"

definition parsed_number :: "string \<Rightarrow> jsval" where
  "parsed_number ds = Num (fl (of_int (digits_value 10 ds)))"

definition substituted :: "string \<Rightarrow> string" where
  "substituted s = (if s = ''undefined'' then ''0.0.0'' else s)"

lemma in_matchl_Star:
  "x \<in> set (matchl inp (Star r) (s, c)) \<longleftrightarrow>
     x = (s, c) \<or> (\<exists>s1 c1. (s1, c1) \<in> set (matchl inp r (s, c)) \<and> length s1 < length s
                       \<and> x \<in> set (matchl inp (Star r) (s1, c1)))"
  by (subst matchl.simps(7)) (auto split: if_splits)

lemma extends_Alt1: "extends r1 st st' \<Longrightarrow> extends (Alt r1 r2) st st'"
  unfolding extends_def
proof (elim exE conjE)
  fix w d
  assume "fst st = w @ fst st'" "snd st' = d @ snd st" "fst ` set d \<subseteq> groups r1"
    "min_len r1 \<le> length w"
  then show "\<exists>w d. fst st = w @ fst st' \<and> snd st' = d @ snd st
      \<and> fst ` set d \<subseteq> groups (Alt r1 r2) \<and> min_len (Alt r1 r2) \<le> length w"
    by (intro exI[of _ w] exI[of _ d]) auto
qed

lemma extends_Alt2: "extends r2 st st' \<Longrightarrow> extends (Alt r1 r2) st st'"
  unfolding extends_def
proof (elim exE conjE)
  fix w d
  assume "fst st = w @ fst st'" "snd st' = d @ snd st" "fst ` set d \<subseteq> groups r2"
    "min_len r2 \<le> length w"
  then show "\<exists>w d. fst st = w @ fst st' \<and> snd st' = d @ snd st
      \<and> fst ` set d \<subseteq> groups (Alt r1 r2) \<and> min_len (Alt r1 r2) \<le> length w"
    by (intro exI[of _ w] exI[of _ d]) auto
qed

lemma extends_refl: "min_len r = 0 \<Longrightarrow> extends r st st"
  by (simp add: extends_def)

lemma extends_Opt: "extends r st st' \<Longrightarrow> extends (Opt r) st st'"
  unfolding extends_def
proof (elim exE conjE)
  fix w d
  assume "fst st = w @ fst st'" "snd st' = d @ snd st" "fst ` set d \<subseteq> groups r"
  then show "\<exists>w d. fst st = w @ fst st' \<and> snd st' = d @ snd st
      \<and> fst ` set d \<subseteq> groups (Opt r) \<and> min_len (Opt r) \<le> length w"
    by (intro exI[of _ w] exI[of _ d]) auto
qed

lemma matchl_extends:
  "st' \<in> set (matchl inp r st) \<Longrightarrow> extends r st st'"
proof (induction inp r st arbitrary: st' rule: matchl.induct)
  case (1 inp s c)
  then show ?case by (auto simp: extends_def split: if_splits)
next
  case (2 inp s c)
  then show ?case by (auto simp: extends_def split: if_splits)
next
  case (3 inp a s c)
  then show ?case by (auto simp: extends_def split: if_splits list.splits)
next
  case (4 inp rs s c)
  then show ?case by (auto simp: extends_def split: if_splits list.splits)
next
  case (5 inp r1 r2 s c)
  from "5.prems" obtain st1 where st1: "st1 \<in> set (matchl inp r1 (s, c))"
    and st': "st' \<in> set (matchl inp r2 st1)" by auto
  from "5.IH"(1)[OF st1] have e1: "extends r1 (s, c) st1" .
  from "5.IH"(2)[OF st1 st'] have e2: "extends r2 st1 st'" .
  from e1 obtain w1 d1 where a: "s = w1 @ fst st1" "snd st1 = d1 @ c" "fst ` set d1 \<subseteq> groups r1" "min_len r1 \<le> length w1"
    by (auto simp: extends_def)
  from e2 obtain w2 d2 where b: "fst st1 = w2 @ fst st'" "snd st' = d2 @ snd st1" "fst ` set d2 \<subseteq> groups r2" "min_len r2 \<le> length w2"
    by (auto simp: extends_def)
  show ?case unfolding extends_def
    apply (rule exI[of _ "w1 @ w2"], rule exI[of _ "d2 @ d1"])
    using a b by auto
next
  case (6 inp r1 r2 s c)
  from "6.prems" have "st' \<in> set (matchl inp r1 (s, c)) \<or> st' \<in> set (matchl inp r2 (s, c))"
    by simp
  then show ?case using "6.IH" extends_Alt1 extends_Alt2 by blast
next
  case (7 inp r s c)
  show ?case
  proof (cases "st' = (s, c)")
    case True
    then show ?thesis by (auto simp: extends_def)
  next
    case False
    with "7.prems" obtain s1 c1 where st1: "(s1, c1) \<in> set (matchl inp r (s, c))"
      and lt: "length s1 < length s" and st': "st' \<in> set (matchl inp (Star r) (s1, c1))"
      using in_matchl_Star[of st' inp r s c] by blast
    from "7.IH"(1)[OF st1] have e1: "extends r (s, c) (s1, c1)" .
    from "7.IH"(2)[OF st1 _ lt st'] have e2: "extends (Star r) (s1, c1) st'" by simp
    from e1 obtain w1 d1 where a: "s = w1 @ s1" "c1 = d1 @ c" "fst ` set d1 \<subseteq> groups r"
      by (auto simp: extends_def)
    from e2 obtain w2 d2 where b: "s1 = w2 @ fst st'" "snd st' = d2 @ c1" "fst ` set d2 \<subseteq> groups r"
      by (auto simp: extends_def)
    show ?thesis unfolding extends_def
      apply (rule exI[of _ "w1 @ w2"], rule exI[of _ "d2 @ d1"])
      using a b by auto
  qed
next
  case (8 inp r s c)
  from "8.prems" have "st' = (s, c) \<or> st' \<in> set (matchl inp r (s, c))"
    by auto
  then show ?case
  proof
    assume "st' = (s, c)"
    then show ?thesis by (simp add: extends_refl)
  next
    assume m: "st' \<in> set (matchl inp r (s, c))"
    show ?thesis by (rule extends_Opt) (rule "8.IH"[OF m])
  qed
next
  case (9 inp n r s c)
  from "9.prems" obtain s1 c1 where st1: "(s1, c1) \<in> set (matchl inp r (s, c))"
    and st': "st' = (s1, (n, take (length s - length s1) s) # c1)" by auto
  from "9.IH"[OF st1] obtain w d where a: "s = w @ s1" "c1 = d @ c" "fst ` set d \<subseteq> groups r" "min_len r \<le> length w"
    by (auto simp: extends_def)
  show ?case unfolding extends_def st'
    apply (rule exI[of _ w], rule exI[of _ "(n, take (length s - length s1) s) # d"])
    using a by auto
qed

lemma matchl_Star_Cls:
  "(s', c') \<in> set (matchl inp (Star (Cls rs)) (s, c)) \<Longrightarrow>
     c' = c \<and> (\<exists>w. s = w @ s' \<and> list_all (in_class rs) w)"
proof (induction s arbitrary: s' c')
  case Nil
  then show ?case by (simp add: in_matchl_Star[of _ _ _ "[]"])
next
  case (Cons x t)
  show ?case
  proof (cases "in_class rs x")
    case True
    with Cons.prems have "(s', c') = (x # t, c) \<or> (s', c') \<in> set (matchl inp (Star (Cls rs)) (t, c))"
      by (auto simp: in_matchl_Star[of _ _ _ "x # t"] split: if_splits)
    then show ?thesis
    proof
      assume "(s', c') = (x # t, c)"
      then show ?thesis by simp
    next
      assume "(s', c') \<in> set (matchl inp (Star (Cls rs)) (t, c))"
      from Cons.IH[OF this] obtain w where "c' = c" "t = w @ s'" "list_all (in_class rs) w"
        by blast
      with True have "c' = c \<and> x # t = (x # w) @ s' \<and> list_all (in_class rs) (x # w)"
        by simp
      then show ?thesis by blast
    qed
  next
    case False
    with Cons.prems show ?thesis by (simp add: in_matchl_Star[of _ _ _ "x # t"])
  qed
qed

lemma matchl_numeric_identifier:
  assumes "(s', c') \<in> set (matchl inp numeric_identifier (s, c))"
  shows "c' = c \<and> (\<exists>w. s = w @ s' \<and> numid w)"
proof -
  from assms have
    "(s', c') \<in> set (matchl inp (Chr CHR ''0'') (s, c)) \<or>
     (s', c') \<in> set (matchl inp (Seq (Cls [(CHR ''1'', CHR ''9'')]) (Star digit)) (s, c))"
    by (simp add: numeric_identifier_def)
  then show ?thesis
  proof
    assume "(s', c') \<in> set (matchl inp (Chr CHR ''0'') (s, c))"
    then have "c' = c \<and> s = ''0'' @ s'"
      by (auto split: list.splits if_splits)
    then show ?thesis unfolding numid_def by blast
  next
    assume "(s', c') \<in> set (matchl inp (Seq (Cls [(CHR ''1'', CHR ''9'')]) (Star digit)) (s, c))"
    then obtain x t where s: "s = x # t" and x: "in_class [(CHR ''1'', CHR ''9'')] x"
      and r: "(s', c') \<in> set (matchl inp (Star (Cls [(CHR ''0'', CHR ''9'')])) (t, c))"
      by (auto simp: digit_def split: list.splits if_splits)
    from matchl_Star_Cls[OF r] obtain w where "c' = c" "t = w @ s'"
      "list_all (in_class [(CHR ''0'', CHR ''9'')]) w" by blast
    with s x have "c' = c \<and> s = (x # w) @ s' \<and> numid (x # w)"
      by (simp add: numid_def)
    then show ?thesis by blast
  qed
qed

lemma matchl_Grp_numeric_identifier:
  assumes "(s', c') \<in> set (matchl inp (Grp n numeric_identifier) (s, c))"
  shows "\<exists>w. s = w @ s' \<and> numid w \<and> c' = (n, w) # c"
proof -
  from assms obtain c1 where in1: "(s', c1) \<in> set (matchl inp numeric_identifier (s, c))"
    and c': "c' = (n, take (length s - length s') s) # c1"
    by auto
  from matchl_numeric_identifier[OF in1] obtain w where "c1 = c" "s = w @ s'" "numid w"
    by blast
  with c' show ?thesis by auto
qed

lemma matchl_Chr:
  "(s', c') \<in> set (matchl inp (Chr a) (s, c)) \<Longrightarrow> s = a # s' \<and> c' = c"
  by (auto split: list.splits if_splits)

lemma in_matchl_Seq:
  "x \<in> set (matchl inp (Seq r1 r2) st) \<Longrightarrow>
     \<exists>s1 c1. (s1, c1) \<in> set (matchl inp r1 st) \<and> x \<in> set (matchl inp r2 (s1, c1))"
  by (cases st) auto

lemma in_matchl_Grp:
  "(s', c') \<in> set (matchl inp (Grp n r) (s, c)) \<Longrightarrow>
     \<exists>c1. (s', c1) \<in> set (matchl inp r (s, c)) \<and> c' = (n, take (length s - length s') s) # c1"
  by auto

lemma matchl_Opt_Grp:
  assumes "(s', c') \<in> set (matchl inp (Opt (Seq (Chr a) (Grp n body))) (s, c))"
    and "groups body = {}" and "0 < min_len body"
  shows "(s' = s \<and> c' = c) \<or> (\<exists>w. w \<noteq> [] \<and> s = a # w @ s' \<and> c' = (n, w) # c)"
proof -
  from assms(1) have "(s', c') = (s, c) \<or> (s', c') \<in> set (matchl inp (Seq (Chr a) (Grp n body)) (s, c))"
    by auto
  then show ?thesis
  proof
    assume "(s', c') = (s, c)"
    then show ?thesis by simp
  next
    assume "(s', c') \<in> set (matchl inp (Seq (Chr a) (Grp n body)) (s, c))"
    from in_matchl_Seq[OF this] obtain s1 c1 where 1: "(s1, c1) \<in> set (matchl inp (Chr a) (s, c))"
      and 2: "(s', c') \<in> set (matchl inp (Grp n body) (s1, c1))" by blast
    from matchl_Chr[OF 1] have s: "s = a # s1" and c1: "c1 = c"
      by simp_all
    from in_matchl_Grp[OF 2] obtain c2 where 3: "(s', c2) \<in> set (matchl inp body (s1, c1))"
      and c': "c' = (n, take (length s1 - length s') s1) # c2"
      by blast
    from matchl_extends[OF 3] assms(2) obtain w where w: "s1 = w @ s'" "c2 = c1"
      and "min_len body \<le> length w"
      by (auto simp: extends_def)
    with assms(3) have "w \<noteq> []" by auto
    note w = w this
    with s c1 c' have "w \<noteq> [] \<and> s = a # w @ s' \<and> c' = (n, w) # c" by simp
    then show ?thesis by blast
  qed
qed

lemma ngroups_regexp: "[1..<Suc (ngroups regexp)] = [1, 2, 3, 4, 5]"
  by (simp add: regexp_def numeric_identifier_def prerelease_identifier_def
      build_identifier_def plus_def digit_def upt_rec)

lemma regexp_matchl:
  assumes "(s', c') \<in> set (matchl inp regexp (inp, []))"
  shows "\<exists>ma mi pa pre bld. numid ma \<and> numid mi \<and> numid pa \<and> pre \<noteq> Some [] \<and> bld \<noteq> Some []
     \<and> s' = [] \<and> inp = semver_text ma mi pa pre bld
     \<and> map (map_of c') [1, 2, 3, 4, 5] = [Some ma, Some mi, Some pa, pre, bld]"
proof -
  let ?pre = "Seq prerelease_identifier (Star (Seq (Chr CHR ''.'') prerelease_identifier))"
  let ?bld = "Seq build_identifier (Star (Seq (Chr CHR ''.'') build_identifier))"
  have gp: "groups ?pre = {}" "0 < min_len ?pre"
    by (simp_all add: prerelease_identifier_def digit_def)
  have gb: "groups ?bld = {}" "0 < min_len ?bld"
    by (simp_all add: build_identifier_def plus_def)
  from in_matchl_Seq[OF assms[unfolded regexp_def]] obtain s0 c0 where
    0: "(s0, c0) \<in> set (matchl inp Bol (inp, []))" and
    r0: "(s', c') \<in> set (matchl inp (Seq (Grp 1 numeric_identifier)
     (Seq (Chr CHR ''.'') (Seq (Grp 2 numeric_identifier)
     (Seq (Chr CHR ''.'') (Seq (Grp 3 numeric_identifier)
     (Seq (Opt (Seq (Chr CHR ''-'') (Grp 4 ?pre)))
     (Seq (Opt (Seq (Chr CHR ''+'') (Grp 5 ?bld))) Eol))))))) (s0, c0))"
    by blast
  from 0 have s0: "s0 = inp" "c0 = []" by (auto split: if_splits)
  from in_matchl_Seq[OF r0] obtain s1 c1 where
    1: "(s1, c1) \<in> set (matchl inp (Grp 1 numeric_identifier) (s0, c0))" and
    r1: "(s', c') \<in> set (matchl inp (Seq (Chr CHR ''.'') (Seq (Grp 2 numeric_identifier)
     (Seq (Chr CHR ''.'') (Seq (Grp 3 numeric_identifier)
     (Seq (Opt (Seq (Chr CHR ''-'') (Grp 4 ?pre)))
     (Seq (Opt (Seq (Chr CHR ''+'') (Grp 5 ?bld))) Eol)))))) (s1, c1))"
    by blast
  from matchl_Grp_numeric_identifier[OF 1] obtain ma where
    ma: "s0 = ma @ s1" "numid ma" "c1 = (1, ma) # c0" by blast
  from in_matchl_Seq[OF r1] obtain s2 c2 where
    2: "(s2, c2) \<in> set (matchl inp (Chr CHR ''.'') (s1, c1))" and
    r2: "(s', c') \<in> set (matchl inp (Seq (Grp 2 numeric_identifier)
     (Seq (Chr CHR ''.'') (Seq (Grp 3 numeric_identifier)
     (Seq (Opt (Seq (Chr CHR ''-'') (Grp 4 ?pre)))
     (Seq (Opt (Seq (Chr CHR ''+'') (Grp 5 ?bld))) Eol))))) (s2, c2))"
    by blast
  from matchl_Chr[OF 2] have d1: "s1 = CHR ''.'' # s2" "c2 = c1" by simp_all
  from in_matchl_Seq[OF r2] obtain s3 c3 where
    3: "(s3, c3) \<in> set (matchl inp (Grp 2 numeric_identifier) (s2, c2))" and
    r3: "(s', c') \<in> set (matchl inp (Seq (Chr CHR ''.'') (Seq (Grp 3 numeric_identifier)
     (Seq (Opt (Seq (Chr CHR ''-'') (Grp 4 ?pre)))
     (Seq (Opt (Seq (Chr CHR ''+'') (Grp 5 ?bld))) Eol)))) (s3, c3))"
    by blast
  from matchl_Grp_numeric_identifier[OF 3] obtain mi where
    mi: "s2 = mi @ s3" "numid mi" "c3 = (2, mi) # c2" by blast
  from in_matchl_Seq[OF r3] obtain s4 c4 where
    4: "(s4, c4) \<in> set (matchl inp (Chr CHR ''.'') (s3, c3))" and
    r4: "(s', c') \<in> set (matchl inp (Seq (Grp 3 numeric_identifier)
     (Seq (Opt (Seq (Chr CHR ''-'') (Grp 4 ?pre)))
     (Seq (Opt (Seq (Chr CHR ''+'') (Grp 5 ?bld))) Eol))) (s4, c4))"
    by blast
  from matchl_Chr[OF 4] have d2: "s3 = CHR ''.'' # s4" "c4 = c3" by simp_all
  from in_matchl_Seq[OF r4] obtain s5 c5 where
    5: "(s5, c5) \<in> set (matchl inp (Grp 3 numeric_identifier) (s4, c4))" and
    r5: "(s', c') \<in> set (matchl inp
     (Seq (Opt (Seq (Chr CHR ''-'') (Grp 4 ?pre)))
     (Seq (Opt (Seq (Chr CHR ''+'') (Grp 5 ?bld))) Eol)) (s5, c5))"
    by blast
  from matchl_Grp_numeric_identifier[OF 5] obtain pa where
    pa: "s4 = pa @ s5" "numid pa" "c5 = (3, pa) # c4" by blast
  from in_matchl_Seq[OF r5] obtain s6 c6 where
    6: "(s6, c6) \<in> set (matchl inp (Opt (Seq (Chr CHR ''-'') (Grp 4 ?pre))) (s5, c5))" and
    r6: "(s', c') \<in> set (matchl inp
     (Seq (Opt (Seq (Chr CHR ''+'') (Grp 5 ?bld))) Eol) (s6, c6))"
    by blast
  from matchl_Opt_Grp[OF 6 gp] obtain pre where
    pre: "pre \<noteq> Some []" "s5 = opt_part CHR ''-'' pre @ s6"
      "c6 = (case pre of None \<Rightarrow> c5 | Some p \<Rightarrow> (4, p) # c5)"
  proof (elim disjE exE conjE)
    assume "s6 = s5" "c6 = c5"
    then show ?thesis using that[of None] by (simp add: opt_part_def)
  next
    fix w assume "w \<noteq> []" "s5 = CHR ''-'' # w @ s6" "c6 = (4, w) # c5"
    then show ?thesis using that[of "Some w"] by (simp add: opt_part_def)
  qed
  from in_matchl_Seq[OF r6] obtain s7 c7 where
    7: "(s7, c7) \<in> set (matchl inp (Opt (Seq (Chr CHR ''+'') (Grp 5 ?bld))) (s6, c6))" and
    r7: "(s', c') \<in> set (matchl inp Eol (s7, c7))"
    by blast
  from matchl_Opt_Grp[OF 7 gb] obtain bld where
    bld: "bld \<noteq> Some []" "s6 = opt_part CHR ''+'' bld @ s7"
      "c7 = (case bld of None \<Rightarrow> c6 | Some b \<Rightarrow> (5, b) # c6)"
  proof (elim disjE exE conjE)
    assume "s7 = s6" "c7 = c6"
    then show ?thesis using that[of None] by (simp add: opt_part_def)
  next
    fix w assume "w \<noteq> []" "s6 = CHR ''+'' # w @ s7" "c7 = (5, w) # c6"
    then show ?thesis using that[of "Some w"] by (simp add: opt_part_def)
  qed
  from r7 have e: "s7 = []" "s' = []" "c' = c7" by (auto split: if_splits)
  have shape: "inp = semver_text ma mi pa pre bld"
    using s0 ma d1 mi d2 pa pre(2) bld(2) e(1) by (simp add: semver_text_def)
  have caps: "map (map_of c') [1, 2, 3, 4, 5] = [Some ma, Some mi, Some pa, pre, bld]"
    using e(3) bld(3) pre(3) pa(3) d2(2) mi(3) d1(2) ma(3) s0(2)
    by (cases pre; cases bld) simp_all
  show ?thesis
    by (intro exI[of _ ma] exI[of _ mi] exI[of _ pa] exI[of _ pre] exI[of _ bld] conjI)
       (fact ma(2) mi(2) pa(2) pre(1) bld(1) e(2) shape caps)+
qed

lemma match_at_regexp_later:
  assumes "0 < i" "i \<le> length inp"
  shows "match_at regexp inp i = None"
proof -
  from assms have "length (drop i inp) \<noteq> length inp" by simp
  then have "matchl inp regexp (drop i inp, []) = []"
    by (simp add: regexp_def)
  then show ?thesis by (simp add: match_at_def)
qed

lemma regexp_exec_regexp: "regexp_exec regexp inp = match_at regexp inp 0"
proof -
  have "[0..<Suc (length inp)] = 0 # [1..<Suc (length inp)]"
    by (subst upt_rec) simp
  moreover have "\<forall>i \<in> set [1..<Suc (length inp)]. match_at regexp inp i = None"
  proof
    fix i assume "i \<in> set [1..<Suc (length inp)]"
    then have "0 < i" "i \<le> length inp" by auto
    then show "match_at regexp inp i = None" by (rule match_at_regexp_later)
  qed
  then have "List.map_filter (match_at regexp inp) [1..<Suc (length inp)] = []"
    by (simp add: List.map_filter_def filter_empty_conv del: upt_Suc)
  ultimately show ?thesis
    by (cases "match_at regexp inp 0") (simp_all add: regexp_exec_def List.map_filter_simps)
qed

lemma regexp_exec_Some:
  assumes "regexp_exec regexp inp = Some m"
  shows "\<exists>ma mi pa pre bld. numid ma \<and> numid mi \<and> numid pa \<and> pre \<noteq> Some [] \<and> bld \<noteq> Some []
     \<and> inp = semver_text ma mi pa pre bld
     \<and> m = [Some inp, Some ma, Some mi, Some pa, pre, bld]"
proof -
  from assms have "match_at regexp inp 0 = Some m" by (simp add: regexp_exec_regexp)
  then obtain s' c' rest where l: "matchl inp regexp (inp, []) = (s', c') # rest"
    and m0: "m = Some (take (length inp - length s') inp)
                 # map (map_of c') [1..<Suc (ngroups regexp)]"
    by (auto simp: match_at_def simp del: upt_Suc split: list.splits)
  note m' = m0[unfolded ngroups_regexp]
  from l have "(s', c') \<in> set (matchl inp regexp (inp, []))" by simp
  from regexp_matchl[OF this] m' show ?thesis by auto
qed

lemma bit_length_le: "n < 2 ^ k \<Longrightarrow> bit_length n \<le> int k"
proof (induction k arbitrary: n)
  case 0
  then show ?case by (simp add: bit_length.simps)
next
  case (Suc k)
  show ?case
  proof (cases "n \<le> 0")
    case True
    then show ?thesis by (simp add: bit_length.simps)
  next
    case False
    from Suc.prems have "n div 2 < 2 ^ k" by simp
    from Suc.IH[OF this] False show ?thesis
      by (subst bit_length.simps) simp
  qed
qed

lemma bit_length_1: "bit_length 1 = 1"
  by (simp add: bit_length.simps)

lemma ilog2_of_int_le:
  assumes "0 < n" "n < 2 ^ 53"
  shows "ilog2 (of_int n) \<le> 52"
proof -
  from bit_length_le[OF assms(2)] have "bit_length n \<le> 53" by simp
  then show ?thesis
    by (simp add: ilog2_def bit_length_1 Let_def)
qed

lemma round_half_even_of_int: "round_half_even (of_int z) = z"
  by (simp add: round_half_even_def)

lemma fl_of_int:
  assumes "0 < n" "n < 2 ^ 53"
  shows "fl (of_int n) = Fin (of_int n)"
proof -
  let ?p = "max (ilog2 (rat_of_int n) - 52) (- 1074)"
  define k where "k = nat (- ?p)"
  from ilog2_of_int_le[OF assms] have p: "?p \<le> 0" by simp
  then have pow: "pow2 ?p = 1 / 2 ^ k"
    by (cases "?p = 0") (simp_all add: pow2_def k_def)
  have "(of_int n :: rat) / pow2 ?p = of_int (n * 2 ^ k)"
    by (simp add: pow)
  then have m: "round_half_even (of_int n / pow2 ?p) = n * 2 ^ k"
    by (simp only: round_half_even_of_int)
  have v: "(of_int (n * 2 ^ k) :: rat) * pow2 ?p = of_int n"
    by (simp add: pow)
  from assms(2) have "(of_int n :: rat) < of_int (2 ^ 53)"
    by (simp only: of_int_less_iff)
  then have "(of_int n :: rat) < 2 ^ 53" by simp
  moreover have "(2::rat) ^ 53 \<le> 2 ^ 1024" by (rule power_increasing) simp_all
  ultimately have big: "\<not> (2::rat) ^ 1024 \<le> of_int n" by linarith
  from assms(1) have pos: "(0::rat) < of_int n" by simp
  then have a: "\<bar>rat_of_int n\<bar> = of_int n" by simp
  show ?thesis
    unfolding fl_def Let_def a m v
    using pos big by simp
qed

lemma char_code_range_cases:
  assumes "48 \<le> char_code c" "char_code c \<le> 57"
  shows "c \<in> set ''0123456789''"
proof -
  define n :: nat where "n = of_char c"
  have c: "c = char_of n" by (simp only: n_def char_of_char)
  have "char_code c = int n"
    by (simp add: char_code_def of_nat_of_char n_def)
  with assms have "48 \<le> n" "n \<le> 57"
    by linarith+
  then have "n = 48 \<or> n = 49 \<or> n = 50 \<or> n = 51 \<or> n = 52 \<or> n = 53 \<or> n = 54
      \<or> n = 55 \<or> n = 56 \<or> n = 57"
    by arith
  then show ?thesis
    unfolding c by (elim disjE) (simp_all add: char_of_def bit_Suc_0_iff)
qed

lemma in_class_digit: "in_class [(CHR ''0'', CHR ''9'')] c \<longleftrightarrow> c \<in> set ''0123456789''"
proof
  assume "in_class [(CHR ''0'', CHR ''9'')] c"
  then have "48 \<le> char_code c" "char_code c \<le> 57"
    by (simp_all add: in_class_def char_code_def)
  then show "c \<in> set ''0123456789''" by (rule char_code_range_cases)
next
  assume "c \<in> set ''0123456789''"
  then show "in_class [(CHR ''0'', CHR ''9'')] c"
    by (auto simp: in_class_def char_code_def)
qed

lemma in_class_nonzero_digit:
  "in_class [(CHR ''1'', CHR ''9'')] c \<longleftrightarrow> c \<in> set ''123456789''"
proof
  assume a: "in_class [(CHR ''1'', CHR ''9'')] c"
  then have "48 \<le> char_code c" "char_code c \<le> 57"
    by (simp_all add: in_class_def char_code_def)
  then have "c \<in> set ''0123456789''" by (rule char_code_range_cases)
  with a show "c \<in> set ''123456789''"
    by (auto simp: in_class_def char_code_def)
next
  assume "c \<in> set ''123456789''"
  then show "in_class [(CHR ''1'', CHR ''9'')] c"
    by (auto simp: in_class_def char_code_def)
qed

lemma digit_val_digit:
  assumes "c \<in> set ''0123456789''"
  shows "\<exists>d. digit_val c = Some d \<and> 0 \<le> d \<and> d < 10 \<and> digit_char d = c
             \<and> (c \<noteq> CHR ''0'' \<longrightarrow> 0 < d)"
  using assms by (auto simp: digit_val_def char_code_def digit_char_def)

lemma is_digit_in_10: "c \<in> set ''0123456789'' \<Longrightarrow> is_digit_in 10 c"
  using digit_val_digit[of c] by (auto simp: is_digit_in_def)

lemma not_white_digit: "c \<in> set ''0123456789'' \<Longrightarrow> \<not> is_white c"
  by (auto simp: is_white_def char_code_def)

lemma digits_value_snoc:
  "digits_value R (ds @ [c]) =
     R * digits_value R ds + (case digit_val c of Some d \<Rightarrow> d | None \<Rightarrow> 0)"
  by (simp add: digits_value_def)

lemma dec_digits_value:
  assumes "x \<in> set ''123456789''" "set t \<subseteq> set ''0123456789''"
  shows "0 < digits_value 10 (x # t) \<and> dec (digits_value 10 (x # t)) = x # t"
  using assms(2)
proof (induction t rule: rev_induct)
  case Nil
  from assms(1) have "x \<in> set ''0123456789''" "x \<noteq> CHR ''0''" by auto
  with digit_val_digit[of x] obtain d where d: "digit_val x = Some d" "0 < d" "d < 10"
    "digit_char d = x" by auto
  then have "digits_value 10 [x] = d" by (simp add: digits_value_def)
  with d show ?case by (simp add: dec.simps)
next
  case (snoc c t)
  then have IH: "0 < digits_value 10 (x # t)" "dec (digits_value 10 (x # t)) = x # t"
    and c: "c \<in> set ''0123456789''" by auto
  from digit_val_digit[OF c] obtain d where d: "digit_val c = Some d" "0 \<le> d" "d < 10"
    "digit_char d = c" by auto
  let ?v = "digits_value 10 (x # t)"
  have v: "digits_value 10 (x # t @ [c]) = 10 * ?v + d"
    using digits_value_snoc[of 10 "x # t" c] d(1) by simp
  from IH(1) d(2,3) have "\<not> 10 * ?v + d < 10" "(10 * ?v + d) div 10 = ?v" "(10 * ?v + d) mod 10 = d"
    by auto
  then have "dec (10 * ?v + d) = dec ?v @ [digit_char d]"
    by (subst dec.simps) simp
  with IH d v show ?case by simp
qed

lemma numid_cases:
  assumes "numid w"
  obtains "w = ''0''"
  | x t where "w = x # t" "x \<in> set ''123456789''" "set t \<subseteq> set ''0123456789''"
  using assms unfolding numid_def in_class_nonzero_digit list_all_iff in_class_digit
  by blast

lemma numid_nonneg: "numid w \<Longrightarrow> 0 \<le> digits_value 10 w"
proof (erule numid_cases)
  assume "w = ''0''"
  then show ?thesis by (simp add: digits_value_def digit_val_def char_code_def)
next
  fix x t assume "w = x # t" "x \<in> set ''123456789''" "set t \<subseteq> set ''0123456789''"
  with dec_digits_value[of x t] show ?thesis by simp
qed

lemma numid_dec: "numid w \<Longrightarrow> dec (digits_value 10 w) = w"
proof (erule numid_cases)
  assume "w = ''0''"
  then show ?thesis by (simp add: digits_value_def digit_val_def char_code_def dec.simps digit_char_def)
next
  fix x t assume "w = x # t" "x \<in> set ''123456789''" "set t \<subseteq> set ''0123456789''"
  with dec_digits_value[of x t] show ?thesis by simp
qed

lemma fl_of_int_nonneg:
  assumes "0 \<le> n" "n < 2 ^ 53"
  shows "fl (of_int n) = Fin (of_int n)"
proof (cases "n = 0")
  case True
  then show ?thesis by (simp add: fl_def)
next
  case False
  with assms fl_of_int[of n] show ?thesis by simp
qed

lemma numid_first:
  assumes "numid w"
  obtains x t where "w = x # t" "x \<in> set ''0123456789''" "set t \<subseteq> set ''0123456789''"
    "t = [] \<or> x \<noteq> CHR ''0''"
proof (rule numid_cases[OF assms])
  assume "w = ''0''"
  then show ?thesis using that[of "CHR ''0''" "[]"] by simp
next
  fix x t assume w: "w = x # t" "x \<in> set ''123456789''" "set t \<subseteq> set ''0123456789''"
  then have "x \<in> set ''0123456789''" "x \<noteq> CHR ''0''" by auto
  with w show ?thesis using that[of x t] by blast
qed

lemma fl_zero: "fl 0 = Fin 0"
  by (simp add: fl_def)

lemma numid_parseInt_str:
  assumes "numid w"
  shows "parseInt_str w = fl (of_int (digits_value 10 w))"
proof -
  from assms obtain x t where w: "w = x # t" and x: "x \<in> set ''0123456789''"
    and t: "set t \<subseteq> set ''0123456789''" and z: "t = [] \<or> x \<noteq> CHR ''0''"
    by (rule numid_first)
  from x have nw: "\<not> is_white x" by (rule not_white_digit)
  from x have sign: "x \<noteq> CHR ''+''" "x \<noteq> CHR ''-''" by auto
  from x t w have "\<forall>c \<in> set w. is_digit_in 10 c"
    using is_digit_in_10 by auto
  then have tw: "takeWhile (is_digit_in 10) w = w"
    by (simp add: takeWhile_eq_all_conv)
  have dw: "dropWhile is_white w = w" using w nw by simp
  have neg: "(case w of c # _ \<Rightarrow> c = CHR ''-'' | [] \<Rightarrow> False) = False"
    using w sign by simp
  have S1: "(case w of c # t \<Rightarrow> (if c = CHR ''+'' \<or> c = CHR ''-'' then t else w) | [] \<Rightarrow> w) = w"
    using w sign by simp
  have hex: "(take 2 w = ''0x'' \<or> take 2 w = ''0X'') = False"
    using z w by (cases t) auto
  have ne: "(w = []) = False" using w by simp
  show ?thesis
    unfolding parseInt_str_def Let_def dw neg S1 hex if_False tw ne
    by (simp add: fl_zero)
qed

lemma NumberToString_of_int:
  assumes "0 \<le> n" "n < 2 ^ 53"
  shows "NumberToString (Fin (of_int n)) = dec n"
proof (cases "n = 0")
  case True
  then show ?thesis by (simp add: NumberToString_def dec.simps digit_char_def)
next
  case False
  with assms have "(0::rat) < of_int n" by simp
  moreover from assms(2) have "(of_int n :: rat) < of_int (2 ^ 53)"
    by (simp only: of_int_less_iff)
  then have "(of_int n :: rat) < 2 ^ 53" by simp
  ultimately show ?thesis
    by (simp add: NumberToString_def positive_to_string_def)
qed

lemma plain_words:
  "plain_word ''major''" "plain_word ''minor''" "plain_word ''patch''"
  "plain_word ''prerelease''" "plain_word ''build''"
  "plain_word ''+''" "plain_word ''/''" "plain_word ''*''" "plain_word ''-''"
  by code_simp+

lemma IsLooselyEqual_word:
  assumes "plain_word s"
  shows "IsLooselyEqual v (Str s) \<longleftrightarrow> v = Str s"
    and "IsLooselyEqual (Str s) v \<longleftrightarrow> v = Str s"
  using assms
  by (cases v; auto simp: IsLooselyEqual_def unbool_def plain_word_def num_equal_def)+

lemma String_call_total: "\<exists>s. String_call v = Inr s"
  by (cases v) (simp_all add: String_call_def ToString_def)

lemma String_call_Str: "String_call (Str s) = Inr s"
  by (simp add: String_call_def ToString_def)

lemma test_String_call: "String_call v = Inr s \<Longrightarrow> test v = test (Str s)"
  by (simp add: test_def String_call_Str and_then_def)

lemma test_nomatch:
  assumes "regexp_exec regexp s = None"
  shows "test (Str s) = Inr None"
  using assms
  by (simp add: test_def String_call_Str and_then_def element_def ToBoolean_def)

lemma parseInt_numid: "numid w \<Longrightarrow> parseInt (Str w) = Inr (fl (of_int (digits_value 10 w)))"
  by (simp add: parseInt_def ToString_def and_then_def numid_parseInt_str)

lemma semver_text_nonempty: "semver_text ma mi pa pre bld \<noteq> []"
  by (simp add: semver_text_def)

lemma test_match:
  assumes "regexp_exec regexp s = Some m"
  shows "\<exists>ma mi pa pre bld. numid ma \<and> numid mi \<and> numid pa \<and> pre \<noteq> Some [] \<and> bld \<noteq> Some []
     \<and> s = semver_text ma mi pa pre bld
     \<and> m = [Some s, Some ma, Some mi, Some pa, pre, bld]
     \<and> test (Str s) = Inr (Some \<lparr>major = parsed_number ma, minor = parsed_number mi,
           patch = parsed_number pa, prerelease = opt_val pre, build = opt_val bld\<rparr>)"
proof -
  from regexp_exec_Some[OF assms] obtain ma mi pa pre bld where
    n: "numid ma" "numid mi" "numid pa" and e: "pre \<noteq> Some []" "bld \<noteq> Some []"
    and s: "s = semver_text ma mi pa pre bld"
    and m: "m = [Some s, Some ma, Some mi, Some pa, pre, bld]"
    by blast
  from s have ne: "s \<noteq> []" by (simp add: semver_text_nonempty)
  have el: "element m 0 = Str s" "element m 1 = Str ma" "element m 2 = Str mi"
    "element m 3 = Str pa" "element m 4 = opt_val pre" "element m 5 = opt_val bld"
    by (simp_all add: m element_def opt_val_def)
  have "test (Str s) = Inr (Some \<lparr>major = parsed_number ma, minor = parsed_number mi,
           patch = parsed_number pa, prerelease = opt_val pre, build = opt_val bld\<rparr>)"
    using ne assms
    by (simp add: test_def String_call_Str and_then_def Let_def el ToBoolean_def
        parseInt_numid n parsed_number_def del: One_nat_def)
  with n e s m show ?thesis by blast
qed

lemma SemVer_new_eq:
  assumes "String_call x = Inr s"
  shows "SemVer_new x =
    (case test (Str (substituted s)) of
       Inl e \<Rightarrow> Inl e
     | Inr None \<Rightarrow> Inl (TypeError ''The supplied string is not a valid semver number.'')
     | Inr (Some r) \<Rightarrow> Inr \<lparr>major = major r, minor = minor r, patch = patch r,
           prerelease = prerelease r, build = build r, input = Str (substituted s)\<rparr>)"
  using assms
  by (simp add: SemVer_new_def and_then_def substituted_def IsLooselyEqual_def unbool_def Let_def
      split: sum.splits option.splits)

lemma test_exec:
  assumes "regexp_exec regexp s = Some [w, Some ma, Some mi, Some pa, pre, bld]"
  shows "test (Str s) = Inr (Some \<lparr>major = parsed_number ma, minor = parsed_number mi,
           patch = parsed_number pa, prerelease = opt_val pre, build = opt_val bld\<rparr>)"
    and "w = Some s" and "numid ma" and "numid mi" and "numid pa"
    and "pre \<noteq> Some []" and "bld \<noteq> Some []" and "s = semver_text ma mi pa pre bld"
  using test_match[OF assms] by auto

lemma parsed_number_safe:
  assumes "numid ds" "digits_value 10 ds < 2 ^ 53"
  shows "parsed_number ds = Num (Fin (of_int (digits_value 10 ds)))"
  using fl_of_int_nonneg[OF numid_nonneg[OF assms(1)] assms(2)]
  by (simp add: parsed_number_def)

lemma rejected_strings:
  "regexp_exec regexp ''not.a.version'' = None"
  "regexp_exec regexp ''1.2'' = None"
  "regexp_exec regexp ''v1.2.3'' = None"
  "regexp_exec regexp ''1.2.3.4'' = None"
  "regexp_exec regexp ''01.2.3'' = None"
  "regexp_exec regexp ''undefined'' = None"
  by code_simp+

lemma exec_zero:
  "regexp_exec regexp ''0.0.0'' = Some [Some ''0.0.0'', Some ''0'', Some ''0'', Some ''0'', None, None]"
  by code_simp

lemma digits_value_0: "digits_value 10 ''0'' = 0"
  by (simp add: digits_value_def digit_val_def char_code_def)

lemma parsed_number_0: "parsed_number ''0'' = Num (Fin 0)"
  by (simp add: parsed_number_def digits_value_0 fl_zero)

lemma SemVer_new_nomatch:
  assumes "String_call x = Inr s" "regexp_exec regexp (substituted s) = None"
  shows "SemVer_new x = Inl (TypeError ''The supplied string is not a valid semver number.'')"
  by (simp add: SemVer_new_eq[OF assms(1)] test_nomatch[OF assms(2)])

text \<open>
  Claim C2. Each of \<open>"not.a.version"\<close>, \<open>"1.2"\<close>, \<open>"v1.2.3"\<close>, \<open>"1.2.3.4"\<close> and
  \<open>"01.2.3"\<close> is rejected on both channels: \<open>SemVer.test\<close> returns \<open>null\<close> and the
  constructor throws its \<open>TypeError\<close>.
\<close>

theorem rejection:
  "test (Str ''not.a.version'') = Inr None
   \<and> SemVer_new (Str ''not.a.version'')
       = Inl (TypeError ''The supplied string is not a valid semver number.'')
   \<and> test (Str ''1.2'') = Inr None
   \<and> SemVer_new (Str ''1.2'')
       = Inl (TypeError ''The supplied string is not a valid semver number.'')
   \<and> test (Str ''v1.2.3'') = Inr None
   \<and> SemVer_new (Str ''v1.2.3'')
       = Inl (TypeError ''The supplied string is not a valid semver number.'')
   \<and> test (Str ''1.2.3.4'') = Inr None
   \<and> SemVer_new (Str ''1.2.3.4'')
       = Inl (TypeError ''The supplied string is not a valid semver number.'')
   \<and> test (Str ''01.2.3'') = Inr None
   \<and> SemVer_new (Str ''01.2.3'')
       = Inl (TypeError ''The supplied string is not a valid semver number.'')"
  by (simp add: test_nomatch rejected_strings SemVer_new_nomatch[OF String_call_Str]
      substituted_def)

text \<open>
  Claim C8. When the input's string is \<open>"undefined"\<close> the constructor does not
  throw: it reads \<open>"0.0.0"\<close> instead, so \<open>major\<close>, \<open>minor\<close> and \<open>patch\<close> are 0 and
  \<open>prerelease\<close> and \<open>build\<close> are \<open>undefined\<close>.
\<close>

theorem default_substitution:
  assumes "String_call x = Inr ''undefined''"
  shows "SemVer_new x = Inr \<lparr>major = Num (Fin 0), minor = Num (Fin 0), patch = Num (Fin 0),
           prerelease = Undefined, build = Undefined, input = Str ''0.0.0''\<rparr>"
  by (simp add: SemVer_new_eq[OF assms] substituted_def test_exec(1)[OF exec_zero]
      parsed_number_0 opt_val_def)

text \<open>The witness: \<open>new SemVer(undefined)\<close>.\<close>

theorem default_substitution_witness:
  "String_call Undefined = Inr ''undefined''
   \<and> SemVer_new Undefined = Inr \<lparr>major = Num (Fin 0), minor = Num (Fin 0), patch = Num (Fin 0),
           prerelease = Undefined, build = Undefined, input = Str ''0.0.0''\<rparr>"
proof -
  have h: "String_call Undefined = Inr ''undefined''"
    by (simp add: String_call_def ToString_def)
  from h default_substitution[OF h] show ?thesis by simp
qed

end
